theory Spec2Isabelle
  imports Main "HOL-Library.Word"
begin

section \<open>Transfer-hook extra account metas: layout codec and resolution\<close>

text \<open>
  A shallow embedding of the TypeScript module that declares the transfer-hook
  extension state (\<^verbatim>\<open>getExtraAccountMetaAccount\<close>, \<^verbatim>\<open>ExtraAccountMetaLayout\<close>,
  \<^verbatim>\<open>ExtraAccountMetaListLayout\<close>, \<^verbatim>\<open>getExtraAccountMetas\<close>,
  \<^verbatim>\<open>resolveExtraAccountMeta\<close>).

  JavaScript numbers are modelled as \<open>int\<close> (only integral values occur in the
  byte codec), a \<^verbatim>\<open>Buffer\<close> or \<^verbatim>\<open>Uint8Array\<close> as a list of bytes, a thrown
  exception as the left summand of a sum type.
\<close>

subsection \<open>Bytes and errors\<close>

type_synonym byte = "8 word"
type_synonym Buffer = "byte list"

text \<open>
  The exceptions that can leave the modelled functions: the JavaScript built-ins
  \<^verbatim>\<open>RangeError\<close> and \<^verbatim>\<open>TypeError\<close>, the library's
  \<^verbatim>\<open>TokenTransferHookAccountNotFound\<close>, the \<^verbatim>\<open>Error('Invalid public key input')\<close>
  of the \<^verbatim>\<open>PublicKey\<close> constructor, and whatever the two external functions
  \<^verbatim>\<open>unpackSeeds\<close> and \<^verbatim>\<open>findProgramAddressSync\<close> throw (\<open>External\<close>, with a tag).
\<close>

datatype error =
    RangeError
  | TypeError
  | TokenTransferHookAccountNotFound
  | InvalidPublicKeyInput
  | External string

text \<open>Sequencing of fallible steps: an exception skips the rest.\<close>

definition andThen :: "error + 'a \<Rightarrow> ('a \<Rightarrow> error + 'b) \<Rightarrow> error + 'b" where
  "andThen m f = (case m of Inl e \<Rightarrow> Inl e | Inr v \<Rightarrow> f v)"

subsection \<open>Buffer reads and writes\<close>

text \<open>
  \<^verbatim>\<open>Buffer.readUIntLE(offset, byteLength)\<close> and \<^verbatim>\<open>Buffer.writeUIntLE(value, offset,
  byteLength)\<close>: little-endian unsigned integers; both throw a \<^verbatim>\<open>RangeError\<close> when the
  bytes are not inside the buffer, and the write also when the value does not fit.
  A write returns the buffer's new contents.
\<close>

fun le_val :: "Buffer \<Rightarrow> int" where
  "le_val [] = 0"
| "le_val (x # xs) = uint x + 256 * le_val xs"

fun le_bytes :: "nat \<Rightarrow> int \<Rightarrow> Buffer" where
  "le_bytes 0 v = []"
| "le_bytes (Suc n) v = word_of_int v # le_bytes n (v div 256)"

definition readUIntLE :: "Buffer \<Rightarrow> nat \<Rightarrow> nat \<Rightarrow> error + int" where
  "readUIntLE b offset byteLength =
     (if offset + byteLength \<le> length b
      then Inr (le_val (take byteLength (drop offset b)))
      else Inl RangeError)"

definition writeUIntLE :: "Buffer \<Rightarrow> int \<Rightarrow> nat \<Rightarrow> nat \<Rightarrow> error + Buffer" where
  "writeUIntLE b v offset byteLength =
     (if v < 0 \<or> 2 ^ (8 * byteLength) \<le> v \<or> length b < offset + byteLength
      then Inl RangeError
      else Inr (take offset b @ le_bytes byteLength v @ drop (offset + byteLength) b))"

subsection \<open>Public keys\<close>

text \<open>
  \<^verbatim>\<open>PublicKey\<close> of @solana/web3.js holds a number of at most 32 bytes. The
  constructor reads a byte array as a big-endian number and throws when that
  number needs more than 32 bytes; \<^verbatim>\<open>toBuffer()\<close> is the number as 32 big-endian
  bytes.
\<close>

datatype PublicKey = PublicKey (bn: "256 word")

definition PUBLIC_KEY_LENGTH :: nat where
  "PUBLIC_KEY_LENGTH = 32"

definition be_val :: "Buffer \<Rightarrow> int" where
  "be_val xs = le_val (rev xs)"

definition be_bytes :: "nat \<Rightarrow> int \<Rightarrow> Buffer" where
  "be_bytes n v = rev (le_bytes n v)"

definition newPublicKey :: "Buffer \<Rightarrow> error + PublicKey" where
  "newPublicKey v =
     (if 2 ^ (8 * PUBLIC_KEY_LENGTH) \<le> be_val v then Inl InvalidPublicKeyInput
      else Inr (PublicKey (word_of_int (be_val v))))"

definition toBuffer :: "PublicKey \<Rightarrow> Buffer" where
  "toBuffer k = be_bytes PUBLIC_KEY_LENGTH (uint (bn k))"

subsection \<open>Account metas\<close>

text \<open>\<^verbatim>\<open>AccountMeta\<close> of @solana/web3.js: a resolved account reference.\<close>

record AccountMeta =
  pubkey :: PublicKey
  isSigner :: bool
  isWritable :: bool

text \<open>\<^verbatim>\<open>ExtraAccountMeta\<close>: one descriptor as stored by the transfer hook program.\<close>

record ExtraAccountMeta =
  discriminator :: int
  addressConfig :: Buffer
  isSigner :: bool
  isWritable :: bool

subsection \<open>The external collaborators\<close>

text \<open>
  Modelled from the spec: \<^verbatim>\<open>unpackSeeds\<close> (module \<^verbatim>\<open>./seeds.js\<close>, whose source is
  not part of the material) is a deterministic function of the configuration
  blob, the references resolved so far and the instruction data; it returns an
  ordered list of seeds or throws. It is a parameter of the model.

  \<^verbatim>\<open>PublicKey.findProgramAddressSync\<close> of @solana/web3.js is a parameter as well:
  a deterministic function of the seeds and the owning program that returns the
  pair of the derived address and the bump, or throws.
\<close>

type_synonym unpackSeeds_fn = "Buffer \<Rightarrow> AccountMeta list \<Rightarrow> Buffer \<Rightarrow> error + Buffer list"
type_synonym findProgramAddressSync_fn = "Buffer list \<Rightarrow> PublicKey \<Rightarrow> error + PublicKey \<times> nat"

text \<open>
  \<^verbatim>\<open>unpackSeeds\<close> is handed the caller's \<^verbatim>\<open>previousMetas\<close> array itself, not a copy,
  so a call could write to it. Where the contents of the array after the call
  matter, the callee is a function that returns, next to its result, the
  contents of the array when it returns or throws.
\<close>

type_synonym unpackSeeds_by_reference =
  "Buffer \<Rightarrow> AccountMeta list \<Rightarrow> Buffer \<Rightarrow> (error + Buffer list) \<times> AccountMeta list"

text \<open>The calls a function makes to the collaborators, with their arguments, in order.\<close>

datatype call =
    UnpackSeeds Buffer "AccountMeta list" Buffer
  | FindProgramAddressSync "Buffer list" PublicKey

text \<open>
  What a call of \<^verbatim>\<open>resolveExtraAccountMeta\<close> gives: the value returned or the
  exception thrown, and the calls made to the collaborators.
\<close>

record resolution =
  outcome :: "error + AccountMeta"
  calls :: "call list"

subsection \<open>Config-account address\<close>

text \<open>\<^verbatim>\<open>Buffer.from(str)\<close> on an ASCII string: one byte per character.\<close>

definition Buffer_from :: "string \<Rightarrow> Buffer" where
  "Buffer_from s = map of_char s"

definition getExtraAccountMetaAccount ::
  "findProgramAddressSync_fn \<Rightarrow> PublicKey \<Rightarrow> PublicKey \<Rightarrow> error + PublicKey" where
  "getExtraAccountMetaAccount findProgramAddressSync programId mint =
     (let seeds = [Buffer_from ''extra-account-metas'', toBuffer mint]
      in andThen (findProgramAddressSync seeds programId) (\<lambda>r. Inr (fst r)))"

subsection \<open>Resolution of one descriptor\<close>

text \<open>
  Reading \<^verbatim>\<open>xs[i]\<close> on a JavaScript array: \<^verbatim>\<open>undefined\<close> (here \<open>None\<close>) when
  \<open>i\<close> is negative or not below the length.
\<close>

definition at_index :: "'a list \<Rightarrow> int \<Rightarrow> 'a option" where
  "at_index xs i = (if 0 \<le> i \<and> i < int (length xs) then Some (xs ! nat i) else None)"

text \<open>
  The variable \<^verbatim>\<open>programId\<close> once the \<^verbatim>\<open>if\<close> on discriminator 1 is done (its
  initial value \<^verbatim>\<open>PublicKey.default\<close> is overwritten on both branches): the hook
  program for discriminator 1; otherwise the key of
  \<^verbatim>\<open>previousMetas[discriminator - (1 << 7)]\<close>, where reading \<^verbatim>\<open>.pubkey\<close> of
  \<^verbatim>\<open>undefined\<close> throws a \<^verbatim>\<open>TypeError\<close>.
\<close>

definition owningProgram :: "ExtraAccountMeta \<Rightarrow> AccountMeta list \<Rightarrow> PublicKey \<Rightarrow> error + PublicKey" where
  "owningProgram extraMeta previousMetas transferHookProgramId =
     (if discriminator extraMeta = 1 then Inr transferHookProgramId
      else
        let accountIndex = discriminator extraMeta - push_bit 7 1
        in if int (length previousMetas) \<le> accountIndex then Inl TokenTransferHookAccountNotFound
           else (case at_index previousMetas accountIndex of
                   None \<Rightarrow> Inl TypeError
                 | Some meta \<Rightarrow> Inr (pubkey meta)))"

definition resolveExtraAccountMeta ::
  "unpackSeeds_fn \<Rightarrow> findProgramAddressSync_fn \<Rightarrow>
   ExtraAccountMeta \<Rightarrow> AccountMeta list \<Rightarrow> Buffer \<Rightarrow> PublicKey \<Rightarrow> resolution" where
  "resolveExtraAccountMeta unpackSeeds findProgramAddressSync
     extraMeta previousMetas instructionData transferHookProgramId =
     (if discriminator extraMeta = 0 then
        \<lparr>outcome = andThen (newPublicKey (addressConfig extraMeta)) (\<lambda>pk.
                     Inr \<lparr>pubkey = pk,
                          isSigner = ExtraAccountMeta.isSigner extraMeta,
                          isWritable = ExtraAccountMeta.isWritable extraMeta\<rparr>),
         calls = []\<rparr>
      else
        (case owningProgram extraMeta previousMetas transferHookProgramId of
           Inl e \<Rightarrow> \<lparr>outcome = Inl e, calls = []\<rparr>
         | Inr programId \<Rightarrow>
             (case unpackSeeds (addressConfig extraMeta) previousMetas instructionData of
                Inl e \<Rightarrow>
                  \<lparr>outcome = Inl e,
                   calls = [UnpackSeeds (addressConfig extraMeta) previousMetas instructionData]\<rparr>
              | Inr seeds \<Rightarrow>
                  \<lparr>outcome = andThen (findProgramAddressSync seeds programId) (\<lambda>r.
                               Inr \<lparr>pubkey = fst r,
                                    isSigner = ExtraAccountMeta.isSigner extraMeta,
                                    isWritable = ExtraAccountMeta.isWritable extraMeta\<rparr>),
                   calls = [UnpackSeeds (addressConfig extraMeta) previousMetas instructionData,
                            FindProgramAddressSync seeds programId]\<rparr>)))"

text \<open>
  The same function with the array made explicit: the second component of the
  result is the contents of the caller's \<^verbatim>\<open>previousMetas\<close> array when the call
  returns or throws. The body has no assignment to the array or to an entry of
  it; \<^verbatim>\<open>new PublicKey\<close> and \<^verbatim>\<open>findProgramAddressSync\<close> are handed the configuration
  blob, the seeds and a key, not the array; \<^verbatim>\<open>unpackSeeds\<close> is handed the array,
  and what it leaves there is what the caller finds. The owning program is
  read before \<^verbatim>\<open>unpackSeeds\<close> is called, as in the source.
\<close>

definition resolveExtraAccountMeta_by_reference ::
  "unpackSeeds_by_reference \<Rightarrow> findProgramAddressSync_fn \<Rightarrow>
   ExtraAccountMeta \<Rightarrow> AccountMeta list \<Rightarrow> Buffer \<Rightarrow> PublicKey \<Rightarrow>
   resolution \<times> AccountMeta list" where
  "resolveExtraAccountMeta_by_reference unpackSeeds findProgramAddressSync
     extraMeta previousMetas instructionData transferHookProgramId =
     (if discriminator extraMeta = 0 then
        (\<lparr>outcome = andThen (newPublicKey (addressConfig extraMeta)) (\<lambda>pk.
                      Inr \<lparr>pubkey = pk,
                           isSigner = ExtraAccountMeta.isSigner extraMeta,
                           isWritable = ExtraAccountMeta.isWritable extraMeta\<rparr>),
          calls = []\<rparr>,
         previousMetas)
      else
        (case owningProgram extraMeta previousMetas transferHookProgramId of
           Inl e \<Rightarrow> (\<lparr>outcome = Inl e, calls = []\<rparr>, previousMetas)
         | Inr programId \<Rightarrow>
             (case unpackSeeds (addressConfig extraMeta) previousMetas instructionData of
                (Inl e, metasAfter) \<Rightarrow>
                  (\<lparr>outcome = Inl e,
                    calls = [UnpackSeeds (addressConfig extraMeta) previousMetas instructionData]\<rparr>,
                   metasAfter)
              | (Inr seeds, metasAfter) \<Rightarrow>
                  (\<lparr>outcome = andThen (findProgramAddressSync seeds programId) (\<lambda>r.
                                Inr \<lparr>pubkey = fst r,
                                     isSigner = ExtraAccountMeta.isSigner extraMeta,
                                     isWritable = ExtraAccountMeta.isWritable extraMeta\<rparr>),
                    calls = [UnpackSeeds (addressConfig extraMeta) previousMetas instructionData,
                             FindProgramAddressSync seeds programId]\<rparr>,
                   metasAfter))))"

subsection \<open>The layouts of @solana/buffer-layout used by the module\<close>

text \<open>
  Each layout has a \<^verbatim>\<open>decode(b, offset)\<close> that returns a value and an
  \<^verbatim>\<open>encode(src, b, offset)\<close> that writes into the caller's buffer and returns the
  number of bytes written; the model's encode returns the new contents of the
  buffer with that number.
\<close>

definition UInt_decode :: "nat \<Rightarrow> Buffer \<Rightarrow> nat \<Rightarrow> error + int" where
  "UInt_decode span b offset = readUIntLE b offset span"

definition UInt_encode :: "nat \<Rightarrow> int \<Rightarrow> Buffer \<Rightarrow> nat \<Rightarrow> error + Buffer \<times> nat" where
  "UInt_encode span src b offset =
     andThen (writeUIntLE b src offset span) (\<lambda>b'. Inr (b', span))"

definition u8_decode :: "Buffer \<Rightarrow> nat \<Rightarrow> error + int" where
  "u8_decode = UInt_decode 1"

definition u8_encode :: "int \<Rightarrow> Buffer \<Rightarrow> nat \<Rightarrow> error + Buffer \<times> nat" where
  "u8_encode = UInt_encode 1"

definition u32_decode :: "Buffer \<Rightarrow> nat \<Rightarrow> error + int" where
  "u32_decode = UInt_decode 4"

definition u32_encode :: "int \<Rightarrow> Buffer \<Rightarrow> nat \<Rightarrow> error + Buffer \<times> nat" where
  "u32_encode = UInt_encode 4"

text \<open>
  \<^verbatim>\<open>bool\<close> of @solana/buffer-layout-utils: a \<^verbatim>\<open>u8\<close> whose decode returns
  \<^verbatim>\<open>!!src\<close> and whose encode writes \<^verbatim>\<open>Number(bool)\<close>.
\<close>

definition bool_decode :: "Buffer \<Rightarrow> nat \<Rightarrow> error + bool" where
  "bool_decode b offset = andThen (u8_decode b offset) (\<lambda>src. Inr (src \<noteq> 0))"

definition bool_encode :: "bool \<Rightarrow> Buffer \<Rightarrow> nat \<Rightarrow> error + Buffer \<times> nat" where
  "bool_encode v b offset = u8_encode (if v then 1 else 0) b offset"

text \<open>
  \<^verbatim>\<open>Blob\<close>: decode is \<^verbatim>\<open>b.slice(offset, offset + length)\<close>, which never throws and
  stops at the end of the buffer; encode throws a \<^verbatim>\<open>TypeError\<close> unless the source has
  exactly \<^verbatim>\<open>length\<close> bytes and a \<^verbatim>\<open>RangeError\<close> when the bytes overrun the buffer.
\<close>

definition Blob_decode :: "nat \<Rightarrow> Buffer \<Rightarrow> nat \<Rightarrow> error + Buffer" where
  "Blob_decode span b offset = Inr (take span (drop offset b))"

definition Blob_encode :: "nat \<Rightarrow> Buffer \<Rightarrow> Buffer \<Rightarrow> nat \<Rightarrow> error + Buffer \<times> nat" where
  "Blob_encode span src b offset =
     (if length src \<noteq> span then Inl TypeError
      else if length b < offset + span then Inl RangeError
      else Inr (take offset b @ src @ drop (offset + span) b, span))"

text \<open>
  \<^verbatim>\<open>GreedyCount\<close>: decode is \<^verbatim>\<open>Math.floor((b.length - offset) / elementSpan)\<close>;
  encode writes nothing.
\<close>

definition GreedyCount_decode :: "nat \<Rightarrow> Buffer \<Rightarrow> nat \<Rightarrow> int" where
  "GreedyCount_decode elementSpan b offset = (int (length b) - int offset) div int elementSpan"

text \<open>
  \<^verbatim>\<open>Sequence\<close>: decode reads the count, then decodes that many elements, each at
  the offset where the one before ended (\<^verbatim>\<open>while (i < count)\<close>, so a count that
  is not positive gives the empty list); encode is the \<^verbatim>\<open>reduce\<close> that writes the
  elements one after the other and sums their spans.
\<close>

fun Sequence_decode_loop ::
  "(Buffer \<Rightarrow> nat \<Rightarrow> error + 'a) \<Rightarrow> nat \<Rightarrow> nat \<Rightarrow> Buffer \<Rightarrow> nat \<Rightarrow> error + 'a list" where
  "Sequence_decode_loop elementDecode elementSpan 0 b offset = Inr []"
| "Sequence_decode_loop elementDecode elementSpan (Suc n) b offset =
     andThen (elementDecode b offset) (\<lambda>v.
     andThen (Sequence_decode_loop elementDecode elementSpan n b (offset + elementSpan)) (\<lambda>rv.
     Inr (v # rv)))"

definition Sequence_decode ::
  "(Buffer \<Rightarrow> nat \<Rightarrow> error + 'a) \<Rightarrow> nat \<Rightarrow> (Buffer \<Rightarrow> nat \<Rightarrow> int) \<Rightarrow> Buffer \<Rightarrow> nat \<Rightarrow> error + 'a list" where
  "Sequence_decode elementDecode elementSpan countDecode b offset =
     Sequence_decode_loop elementDecode elementSpan (nat (countDecode b offset)) b offset"

fun Sequence_encode_reduce ::
  "('a \<Rightarrow> Buffer \<Rightarrow> nat \<Rightarrow> error + Buffer \<times> nat) \<Rightarrow> 'a list \<Rightarrow> Buffer \<Rightarrow> nat \<Rightarrow> nat \<Rightarrow> error + Buffer \<times> nat" where
  "Sequence_encode_reduce elementEncode [] b offset span = Inr (b, span)"
| "Sequence_encode_reduce elementEncode (v # vs) b offset span =
     andThen (elementEncode v b (offset + span)) (\<lambda>r.
     Sequence_encode_reduce elementEncode vs (fst r) offset (span + snd r))"

definition Sequence_encode ::
  "('a \<Rightarrow> Buffer \<Rightarrow> nat \<Rightarrow> error + Buffer \<times> nat) \<Rightarrow> 'a list \<Rightarrow> Buffer \<Rightarrow> nat \<Rightarrow> error + Buffer \<times> nat" where
  "Sequence_encode elementEncode src b offset = Sequence_encode_reduce elementEncode src b offset 0"

subsection \<open>ExtraAccountMetaLayout and ExtraAccountMetaListLayout\<close>

text \<open>
  \<^verbatim>\<open>struct([u8('discriminator'), blob(32, 'addressConfig'), bool('isSigner'),
  bool('isWritable')])\<close>. A \<^verbatim>\<open>Structure\<close> decodes and encodes its fields in the
  order given, each at the offset where the one before ended; its span is the
  sum of the spans of its fields.
\<close>

definition ExtraAccountMetaLayout_span :: nat where
  "ExtraAccountMetaLayout_span = 1 + 32 + 1 + 1"

definition ExtraAccountMetaLayout_decode :: "Buffer \<Rightarrow> nat \<Rightarrow> error + ExtraAccountMeta" where
  "ExtraAccountMetaLayout_decode b offset =
     andThen (u8_decode b offset) (\<lambda>d.
     andThen (Blob_decode 32 b (offset + 1)) (\<lambda>a.
     andThen (bool_decode b (offset + 1 + 32)) (\<lambda>s.
     andThen (bool_decode b (offset + 1 + 32 + 1)) (\<lambda>w.
     Inr \<lparr>discriminator = d, addressConfig = a, isSigner = s, isWritable = w\<rparr>))))"

definition ExtraAccountMetaLayout_encode ::
  "ExtraAccountMeta \<Rightarrow> Buffer \<Rightarrow> nat \<Rightarrow> error + Buffer \<times> nat" where
  "ExtraAccountMetaLayout_encode src b offset =
     andThen (u8_encode (discriminator src) b offset) (\<lambda>r1.
     andThen (Blob_encode 32 (addressConfig src) (fst r1) (offset + 1)) (\<lambda>r2.
     andThen (bool_encode (ExtraAccountMeta.isSigner src) (fst r2) (offset + 1 + 32)) (\<lambda>r3.
     andThen (bool_encode (ExtraAccountMeta.isWritable src) (fst r3) (offset + 1 + 32 + 1)) (\<lambda>r4.
     Inr (fst r4, (offset + 1 + 32 + 1 + snd r4) - offset)))))"

record ExtraAccountMetaList =
  count :: int
  extraAccounts :: "ExtraAccountMeta list"

text \<open>
  \<^verbatim>\<open>struct([u32('count'), seq(ExtraAccountMetaLayout,
  greedy(ExtraAccountMetaLayout.span), 'extraAccounts')])\<close>.
\<close>

definition ExtraAccountMetaListLayout_decode :: "Buffer \<Rightarrow> nat \<Rightarrow> error + ExtraAccountMetaList" where
  "ExtraAccountMetaListLayout_decode b offset =
     andThen (u32_decode b offset) (\<lambda>c.
     andThen (Sequence_decode ExtraAccountMetaLayout_decode ExtraAccountMetaLayout_span
                (GreedyCount_decode ExtraAccountMetaLayout_span) b (offset + 4)) (\<lambda>xs.
     Inr \<lparr>count = c, extraAccounts = xs\<rparr>))"

definition ExtraAccountMetaListLayout_encode ::
  "ExtraAccountMetaList \<Rightarrow> Buffer \<Rightarrow> nat \<Rightarrow> error + Buffer \<times> nat" where
  "ExtraAccountMetaListLayout_encode src b offset =
     andThen (u32_encode (count src) b offset) (\<lambda>r1.
     andThen (Sequence_encode ExtraAccountMetaLayout_encode (extraAccounts src) (fst r1) (offset + 4)) (\<lambda>r2.
     Inr (fst r2, (offset + 4 + snd r2) - offset)))"

text \<open>\<^verbatim>\<open>AccountInfo<Buffer>\<close> of @solana/web3.js.\<close>

record AccountInfo =
  executable :: bool
  owner :: PublicKey
  lamports :: int
  data :: Buffer

definition getExtraAccountMetas :: "AccountInfo \<Rightarrow> error + ExtraAccountMeta list" where
  "getExtraAccountMetas account =
     andThen (ExtraAccountMetaListLayout_decode (data account) 0) (\<lambda>l. Inr (extraAccounts l))"

text \<open>
  The byte image of one descriptor as the binary-layout table of the
  specification gives it (discriminator u8, addressConfig byte[32], isSigner u8,
  isWritable u8), to compare the layout's encode with.
\<close>

definition spec_descriptor_bytes :: "ExtraAccountMeta \<Rightarrow> Buffer" where
  "spec_descriptor_bytes m =
     word_of_int (discriminator m) # addressConfig m @
     [if ExtraAccountMeta.isSigner m then 1 else 0, if ExtraAccountMeta.isWritable m then 1 else 0]"

section \<open>Auxiliary facts\<close>

subsection \<open>Little-endian numbers\<close>

lemma length_le_bytes [simp]: "length (le_bytes n v) = n"
  by (induction n arbitrary: v) simp_all

lemma uint_byte_of_int: "uint (word_of_int a :: byte) = a mod 256"
  by (simp add: uint_word_of_int)

lemma le_val_nonneg: "0 \<le> le_val xs"
  by (induction xs) simp_all

lemma le_val_less: "le_val xs < 2 ^ (8 * length xs)"
proof (induction xs)
  case Nil
  then show ?case by simp
next
  case (Cons x xs)
  have "uint x < 256"
    using uint_lt2p [of x] by simp
  moreover have "le_val xs + 1 \<le> 2 ^ (8 * length xs)"
    using Cons.IH by simp
  then have "256 * (le_val xs + 1) \<le> 256 * 2 ^ (8 * length xs)"
    by simp
  ultimately show ?case
    by (simp add: power_add)
qed

lemma le_val_le_bytes:
  "0 \<le> v \<Longrightarrow> v < 2 ^ (8 * n) \<Longrightarrow> le_val (le_bytes n v) = v"
proof (induction n arbitrary: v)
  case 0
  then show ?case by simp
next
  case (Suc n)
  have "v < 256 * 2 ^ (8 * n)"
    using Suc.prems(2) by (simp add: power_add)
  then have "v div 256 < 2 ^ (8 * n)"
    by linarith
  moreover have "0 \<le> v div 256"
    using Suc.prems by simp
  ultimately have "le_val (le_bytes n (v div 256)) = v div 256"
    by (rule Suc.IH [rotated])
  then show ?case
    by (simp add: uint_byte_of_int)
qed

lemma le_bytes_le_val: "le_bytes (length xs) (le_val xs) = xs"
proof (induction xs)
  case Nil
  then show ?case by simp
next
  case (Cons x xs)
  have x: "uint x < 256" "0 \<le> uint x"
    using uint_lt2p [of x] by simp_all
  then have "(uint x + 256 * le_val xs) div 256 = le_val xs"
    by simp
  moreover have "uint (word_of_int (uint x + 256 * le_val xs) :: byte) = uint x"
    using x uint_byte_of_int [of "uint x + 256 * le_val xs"] by simp
  then have "(word_of_int (uint x + 256 * le_val xs) :: byte) = x"
    by (rule word_uint_eqI)
  ultimately show ?case
    using Cons.IH by simp
qed

subsection \<open>Public keys\<close>

text \<open>A 32-byte array always makes a key, and \<^verbatim>\<open>toBuffer()\<close> gives the array back.\<close>

lemma newPublicKey_32:
  assumes "length v = 32"
  shows "newPublicKey v = Inr (PublicKey (word_of_int (be_val v)))"
    and "toBuffer (PublicKey (word_of_int (be_val v))) = v"
proof -
  have lt: "be_val v < 2 ^ 256"
    using le_val_less [of "rev v"] assms by (simp add: be_val_def)
  have ge: "0 \<le> be_val v"
    by (simp add: be_val_def le_val_nonneg)
  show "newPublicKey v = Inr (PublicKey (word_of_int (be_val v)))"
    using lt by (simp add: newPublicKey_def PUBLIC_KEY_LENGTH_def)
  have "uint (word_of_int (be_val v) :: 256 word) = be_val v"
    using lt ge by (simp add: uint_word_of_int take_bit_int_eq_self)
  then show "toBuffer (PublicKey (word_of_int (be_val v))) = v"
    using le_bytes_le_val [of "rev v"] assms
    by (simp add: toBuffer_def be_bytes_def be_val_def PUBLIC_KEY_LENGTH_def)
qed

subsection \<open>The owning program\<close>

text \<open>
  The owning program of a descriptor whose discriminator is not 1, by cases on
  the index \<open>discriminator - 128\<close>: not below the length, negative, in range.
\<close>

lemma owningProgram_delegated:
  assumes "discriminator extraMeta \<noteq> 1"
  shows "owningProgram extraMeta previousMetas hook =
     (if int (length previousMetas) \<le> discriminator extraMeta - 128
        then Inl TokenTransferHookAccountNotFound
      else if discriminator extraMeta < 128 then Inl TypeError
      else Inr (pubkey (previousMetas ! nat (discriminator extraMeta - 128))))"
  using assms by (auto simp add: owningProgram_def at_index_def Let_def)

lemma owningProgram_self:
  "discriminator extraMeta = 1 \<Longrightarrow> owningProgram extraMeta previousMetas hook = Inr hook"
  by (simp add: owningProgram_def)

text \<open>
  The three cases of a descriptor whose discriminator is neither 0 nor 1: an
  index not below the length throws \<^verbatim>\<open>TokenTransferHookAccountNotFound\<close> before any
  collaborator is called, a negative index throws a \<^verbatim>\<open>TypeError\<close>, and an index in
  range derives under the key found there.
\<close>

lemma resolve_delegated_cases:
  assumes "discriminator extraMeta \<noteq> 0" and "discriminator extraMeta \<noteq> 1"
  shows "int (length previousMetas) \<le> discriminator extraMeta - 128 \<Longrightarrow>
           resolveExtraAccountMeta unpackSeeds findProgramAddressSync
             extraMeta previousMetas instructionData transferHookProgramId
           = \<lparr>outcome = Inl TokenTransferHookAccountNotFound, calls = []\<rparr>"
    and "discriminator extraMeta < 128 \<Longrightarrow>
           resolveExtraAccountMeta unpackSeeds findProgramAddressSync
             extraMeta previousMetas instructionData transferHookProgramId
           = \<lparr>outcome = Inl TypeError, calls = []\<rparr>"
    and "128 \<le> discriminator extraMeta \<Longrightarrow>
         discriminator extraMeta - 128 < int (length previousMetas) \<Longrightarrow>
           outcome (resolveExtraAccountMeta unpackSeeds findProgramAddressSync
             extraMeta previousMetas instructionData transferHookProgramId)
           = andThen (unpackSeeds (addressConfig extraMeta) previousMetas instructionData) (\<lambda>seeds.
             andThen (findProgramAddressSync seeds
                        (pubkey (previousMetas ! nat (discriminator extraMeta - 128)))) (\<lambda>r.
             Inr \<lparr>pubkey = fst r,
                  isSigner = ExtraAccountMeta.isSigner extraMeta,
                  isWritable = ExtraAccountMeta.isWritable extraMeta\<rparr>))"
  using assms
  by (auto simp add: resolveExtraAccountMeta_def owningProgram_delegated andThen_def
           split: sum.splits)

subsection \<open>The array passed by reference\<close>

text \<open>
  With a callee that leaves the array alone, the model with the array explicit
  gives the outcome and the calls of \<open>resolveExtraAccountMeta\<close>.
\<close>

lemma resolveExtraAccountMeta_by_reference_read_only:
  "resolveExtraAccountMeta_by_reference (\<lambda>c p d. (unpackSeeds c p d, p)) findProgramAddressSync
     extraMeta previousMetas instructionData transferHookProgramId
   = (resolveExtraAccountMeta unpackSeeds findProgramAddressSync
        extraMeta previousMetas instructionData transferHookProgramId,
      previousMetas)"
  by (simp add: resolveExtraAccountMeta_by_reference_def resolveExtraAccountMeta_def
           split: sum.splits)

text \<open>
  The array the caller finds is the array the callee left: a callee that
  empties the array is seen by the caller. Nothing in the function restores it.
\<close>

lemma resolveExtraAccountMeta_by_reference_sees_writes:
  "snd (resolveExtraAccountMeta_by_reference (\<lambda>c p d. (Inr [c], [])) (\<lambda>s p. Inr (p, 255))
          \<lparr>discriminator = 1, addressConfig = replicate 32 0, isSigner = False, isWritable = False\<rparr>
          [\<lparr>pubkey = PublicKey 7, isSigner = False, isWritable = False\<rparr>] [] (PublicKey 1))
     = []"
  by (simp add: resolveExtraAccountMeta_by_reference_def owningProgram_def)

text \<open>Whatever the callee, the array is passed to it as the function received it, at most once.\<close>

lemma resolveExtraAccountMeta_by_reference_array:
  "snd (resolveExtraAccountMeta_by_reference unpackSeeds findProgramAddressSync
          extraMeta previousMetas instructionData transferHookProgramId)
     = (if discriminator extraMeta = 0 then previousMetas
        else case owningProgram extraMeta previousMetas transferHookProgramId of
               Inl e \<Rightarrow> previousMetas
             | Inr programId \<Rightarrow>
                 snd (unpackSeeds (addressConfig extraMeta) previousMetas instructionData))"
  by (simp add: resolveExtraAccountMeta_by_reference_def split: sum.splits prod.splits)

subsection \<open>Decoding and encoding one descriptor\<close>

lemma take1_drop: "offset < length b \<Longrightarrow> take (Suc 0) (drop offset b) = [b ! offset]"
  by (simp add: take_Suc hd_drop_conv_nth)

lemma u8_decode_nth:
  "offset < length b \<Longrightarrow> u8_decode b offset = Inr (uint (b ! offset))"
  by (simp add: u8_decode_def UInt_decode_def readUIntLE_def take1_drop)

lemma u8_decode_short:
  "length b \<le> offset \<Longrightarrow> u8_decode b offset = Inl RangeError"
  by (simp add: u8_decode_def UInt_decode_def readUIntLE_def)

lemma bool_decode_nth:
  "offset < length b \<Longrightarrow> bool_decode b offset = Inr (b ! offset \<noteq> 0)"
  by (simp add: bool_decode_def u8_decode_nth andThen_def uint_0_iff)

lemma bool_decode_short:
  "length b \<le> offset \<Longrightarrow> bool_decode b offset = Inl RangeError"
  by (simp add: bool_decode_def u8_decode_short andThen_def)

lemma ExtraAccountMetaLayout_decode_fields:
  assumes "offset + 35 \<le> length b"
  shows "ExtraAccountMetaLayout_decode b offset =
     Inr \<lparr>discriminator = uint (b ! offset),
          addressConfig = take 32 (drop (offset + 1) b),
          isSigner = (b ! (offset + 33) \<noteq> 0),
          isWritable = (b ! (offset + 34) \<noteq> 0)\<rparr>"
proof -
  have "u8_decode b offset = Inr (uint (b ! offset))"
    using assms by (simp add: u8_decode_nth)
  moreover have "bool_decode b (offset + 1 + 32) = Inr (b ! (offset + 33) \<noteq> 0)"
    using assms bool_decode_nth [of "offset + 33" b] by (simp add: add.commute)
  moreover have "bool_decode b (offset + 1 + 32 + 1) = Inr (b ! (offset + 34) \<noteq> 0)"
    using assms bool_decode_nth [of "offset + 34" b] by (simp add: add.commute)
  ultimately show ?thesis
    by (simp only: ExtraAccountMetaLayout_decode_def Blob_decode_def andThen_def sum.case)
qed

text \<open>With fewer than 35 bytes left, one of the three one-byte reads is out of range.\<close>

lemma ExtraAccountMetaLayout_decode_short:
  assumes "length b < offset + 35"
  shows "ExtraAccountMetaLayout_decode b offset = Inl RangeError"
proof (cases "offset < length b")
  case False
  then have "u8_decode b offset = Inl RangeError"
    by (simp add: u8_decode_short)
  then show ?thesis
    by (simp only: ExtraAccountMetaLayout_decode_def andThen_def sum.case)
next
  case True
  then have d: "u8_decode b offset = Inr (uint (b ! offset))"
    by (simp add: u8_decode_nth)
  show ?thesis
  proof (cases "offset + 33 < length b")
    case False
    then have "bool_decode b (offset + 1 + 32) = Inl RangeError"
      using bool_decode_short [of b "offset + 33"] by (simp add: add.commute)
    with d show ?thesis
      by (simp only: ExtraAccountMetaLayout_decode_def Blob_decode_def andThen_def sum.case)
  next
    case True
    then have s: "bool_decode b (offset + 1 + 32) = Inr (b ! (offset + 33) \<noteq> 0)"
      using bool_decode_nth [of "offset + 33" b] by (simp add: add.commute)
    have "bool_decode b (offset + 1 + 32 + 1) = Inl RangeError"
      using assms bool_decode_short [of b "offset + 34"] by (simp add: add.commute)
    with d s show ?thesis
      by (simp only: ExtraAccountMetaLayout_decode_def Blob_decode_def andThen_def sum.case)
  qed
qed

text \<open>Every decoded descriptor has a byte as discriminator and 32 bytes of configuration.\<close>

lemma ExtraAccountMetaLayout_decode_wellformed:
  assumes "ExtraAccountMetaLayout_decode b offset = Inr m"
  shows "0 \<le> discriminator m \<and> discriminator m \<le> 255 \<and> length (addressConfig m) = 32"
proof (cases "offset + 35 \<le> length b")
  case False
  then have "ExtraAccountMetaLayout_decode b offset = Inl RangeError"
    by (simp add: ExtraAccountMetaLayout_decode_short)
  with assms show ?thesis by simp
next
  case True
  have "uint (b ! offset) < 2 ^ 8"
    using uint_lt2p [of "b ! offset"] by simp
  then have "uint (b ! offset) \<le> 255" by simp
  with True assms show ?thesis
    by (auto simp add: ExtraAccountMetaLayout_decode_fields)
qed

lemma u8_encode_bytes:
  assumes "0 \<le> v" "v \<le> 255" "offset < length b"
  shows "u8_encode v b offset = Inr (take offset b @ word_of_int v # drop (Suc offset) b, 1)"
  using assms by (simp add: u8_encode_def UInt_encode_def writeUIntLE_def andThen_def)

lemma bool_encode_bytes:
  assumes "offset < length b"
  shows "bool_encode v b offset = Inr (take offset b @ (if v then 1 else 0) # drop (Suc offset) b, 1)"
  using assms by (simp add: bool_encode_def u8_encode_bytes)

lemma length_spec_descriptor_bytes:
  "length (addressConfig m) = 32 \<Longrightarrow> length (spec_descriptor_bytes m) = 35"
  by (simp add: spec_descriptor_bytes_def)

lemma length_concat_spec_descriptor_bytes:
  "\<forall>m\<in>set ms. 0 \<le> discriminator m \<and> discriminator m \<le> 255 \<and> length (addressConfig m) = 32 \<Longrightarrow>
   length (concat (map spec_descriptor_bytes ms)) = 35 * length ms"
  by (induction ms) (simp_all add: length_spec_descriptor_bytes)

lemma ExtraAccountMetaLayout_encode_bytes:
  assumes "0 \<le> discriminator m" "discriminator m \<le> 255" "length (addressConfig m) = 32"
    and "offset + 35 \<le> length b"
  shows "ExtraAccountMetaLayout_encode m b offset =
           Inr (take offset b @ spec_descriptor_bytes m @ drop (offset + 35) b, 35)"
proof -
  let ?d = "word_of_int (discriminator m) :: byte"
  let ?s = "(if ExtraAccountMeta.isSigner m then 1 else 0) :: byte"
  let ?w = "(if ExtraAccountMeta.isWritable m then 1 else 0) :: byte"
  let ?b1 = "take offset b @ ?d # drop (Suc offset) b"
  let ?b2 = "take offset b @ ?d # addressConfig m @ drop (offset + 33) b"
  let ?b3 = "take offset b @ ?d # addressConfig m @ ?s # drop (offset + 34) b"
  let ?b4 = "take offset b @ ?d # addressConfig m @ ?s # ?w # drop (offset + 35) b"
  have e1: "u8_encode (discriminator m) b offset = Inr (?b1, 1)"
    using assms by (simp add: u8_encode_bytes)
  have e2: "Blob_encode 32 (addressConfig m) ?b1 (offset + 1) = Inr (?b2, 32)"
    using assms by (simp add: Blob_encode_def add.commute)
  have e3: "bool_encode (ExtraAccountMeta.isSigner m) ?b2 (offset + 1 + 32) = Inr (?b3, 1)"
    using assms by (simp add: bool_encode_bytes [of "offset + 33"] add.commute)
  have e4: "bool_encode (ExtraAccountMeta.isWritable m) ?b3 (offset + 1 + 32 + 1) = Inr (?b4, 1)"
    using assms by (simp add: bool_encode_bytes [of "offset + 34"] add.commute)
  show ?thesis
    apply (simp only: ExtraAccountMetaLayout_encode_def andThen_def e1 e2 e3 e4 sum.case fst_conv snd_conv)
    apply (simp add: spec_descriptor_bytes_def)
    done
qed

lemma ExtraAccountMetaLayout_decode_encoded:
  fixes m :: ExtraAccountMeta
  assumes "0 \<le> discriminator m" "discriminator m \<le> 255" "length (addressConfig m) = 32"
  shows "ExtraAccountMetaLayout_decode (pre @ spec_descriptor_bytes m @ post) (length pre) = Inr m"
proof -
  let ?b = "pre @ spec_descriptor_bytes m @ post"
  have len: "length pre + 35 \<le> length ?b"
    using assms by (simp add: length_spec_descriptor_bytes)
  have d: "uint (?b ! length pre) = discriminator m"
    using assms by (simp add: spec_descriptor_bytes_def nth_append uint_word_of_int)
  have a: "take 32 (drop (length pre + 1) ?b) = addressConfig m"
    using assms by (simp add: spec_descriptor_bytes_def)
  have s: "(?b ! (length pre + 33) \<noteq> 0) = ExtraAccountMeta.isSigner m"
    using assms by (simp add: spec_descriptor_bytes_def nth_append)
  have w: "(?b ! (length pre + 34) \<noteq> 0) = ExtraAccountMeta.isWritable m"
    using assms by (simp add: spec_descriptor_bytes_def nth_append)
  show ?thesis
    by (simp only: ExtraAccountMetaLayout_decode_fields [OF len] d a s w) simp
qed

subsection \<open>Decoding and encoding a sequence of descriptors\<close>

lemma Sequence_decode_loop_fields:
  "offset + 35 * n \<le> length b \<Longrightarrow>
   Sequence_decode_loop ExtraAccountMetaLayout_decode 35 n b offset =
     Inr (map (\<lambda>i. \<lparr>discriminator = uint (b ! (offset + 35 * i)),
                     addressConfig = take 32 (drop (offset + 35 * i + 1) b),
                     isSigner = (b ! (offset + 35 * i + 33) \<noteq> 0),
                     isWritable = (b ! (offset + 35 * i + 34) \<noteq> 0)\<rparr>) [0..<n])"
proof (induction n arbitrary: offset)
  case 0
  then show ?case by simp
next
  case (Suc n)
  have fit: "offset + 35 \<le> length b"
    using Suc.prems by simp
  have "(offset + 35) + 35 * n \<le> length b"
    using Suc.prems by simp
  note tl = Suc.IH [OF this]
  show ?case
    by (simp only: Sequence_decode_loop.simps ExtraAccountMetaLayout_decode_fields [OF fit] tl
          andThen_def sum.case map_upt_Suc)
       (simp add: add.assoc)
qed

lemma Sequence_decode_loop_encoded:
  fixes ms :: "ExtraAccountMeta list"
  assumes "\<forall>m\<in>set ms. 0 \<le> discriminator m \<and> discriminator m \<le> 255 \<and> length (addressConfig m) = 32"
  shows "Sequence_decode_loop ExtraAccountMetaLayout_decode 35 (length ms)
           (pre @ concat (map spec_descriptor_bytes ms) @ post) (length pre) = Inr ms"
  using assms
proof (induction ms arbitrary: pre)
  case Nil
  then show ?case by simp
next
  case (Cons m ms)
  let ?rest = "concat (map spec_descriptor_bytes ms) @ post"
  have wf: "0 \<le> discriminator m" "discriminator m \<le> 255" "length (addressConfig m) = 32"
    using Cons.prems by simp_all
  have b: "pre @ concat (map spec_descriptor_bytes (m # ms)) @ post
             = pre @ spec_descriptor_bytes m @ ?rest"
    by simp
  have b': "pre @ concat (map spec_descriptor_bytes (m # ms)) @ post
             = (pre @ spec_descriptor_bytes m) @ ?rest"
    by simp
  have hd: "ExtraAccountMetaLayout_decode
              (pre @ concat (map spec_descriptor_bytes (m # ms)) @ post) (length pre) = Inr m"
    unfolding b by (rule ExtraAccountMetaLayout_decode_encoded [OF wf])
  have "Sequence_decode_loop ExtraAccountMetaLayout_decode 35 (length ms)
          ((pre @ spec_descriptor_bytes m) @ ?rest) (length (pre @ spec_descriptor_bytes m)) = Inr ms"
    using Cons.prems by (intro Cons.IH) simp
  then have tl: "Sequence_decode_loop ExtraAccountMetaLayout_decode 35 (length ms)
          (pre @ concat (map spec_descriptor_bytes (m # ms)) @ post) (length pre + 35) = Inr ms"
    unfolding b' using wf by (simp add: length_spec_descriptor_bytes)
  show ?case
    by (simp add: hd tl andThen_def del: append_assoc concat.simps list.map)
qed

lemma Sequence_encode_reduce_bytes:
  fixes ms :: "ExtraAccountMeta list"
  assumes "\<forall>m\<in>set ms. 0 \<le> discriminator m \<and> discriminator m \<le> 255 \<and> length (addressConfig m) = 32"
    and "offset + span + 35 * length ms \<le> length b"
  shows "Sequence_encode_reduce ExtraAccountMetaLayout_encode ms b offset span =
           Inr (take (offset + span) b @ concat (map spec_descriptor_bytes ms)
                  @ drop (offset + span + 35 * length ms) b,
                span + 35 * length ms)"
  using assms
proof (induction ms arbitrary: b span)
  case Nil
  then show ?case by simp
next
  case (Cons m ms)
  let ?b1 = "take (offset + span) b @ spec_descriptor_bytes m @ drop (offset + span + 35) b"
  have wf: "0 \<le> discriminator m" "discriminator m \<le> 255" "length (addressConfig m) = 32"
    using Cons.prems by simp_all
  have fit: "offset + span + 35 \<le> length b"
    using Cons.prems(2) by simp
  have e: "ExtraAccountMetaLayout_encode m b (offset + span) = Inr (?b1, 35)"
    using ExtraAccountMetaLayout_encode_bytes [OF wf fit] .
  have len1: "length ?b1 = length b"
    using fit wf by (simp add: length_spec_descriptor_bytes)
  have "Sequence_encode_reduce ExtraAccountMetaLayout_encode ms ?b1 offset (span + 35) =
           Inr (take (offset + (span + 35)) ?b1 @ concat (map spec_descriptor_bytes ms)
                  @ drop (offset + (span + 35) + 35 * length ms) ?b1,
                (span + 35) + 35 * length ms)"
    using Cons.prems len1 by (intro Cons.IH) simp_all
  moreover have "take (offset + (span + 35)) ?b1 = take (offset + span) b @ spec_descriptor_bytes m"
    using fit wf by (simp add: length_spec_descriptor_bytes)
  moreover have "drop (offset + (span + 35) + 35 * length ms) ?b1
                   = drop (offset + span + 35 * length (m # ms)) b"
    using fit wf by (simp add: length_spec_descriptor_bytes add.commute add.left_commute)
  ultimately show ?case
    by (simp add: e andThen_def)
qed

lemma greedy_count:
  assumes "4 \<le> length b"
  shows "nat (GreedyCount_decode 35 b 4) = (length b - 4) div 35"
proof -
  have "int (length b) - int 4 = int (length b - 4)"
    using assms by simp
  then show ?thesis
    by (simp add: GreedyCount_decode_def zdiv_int [symmetric] del: of_nat_diff)
qed

section \<open>The claims\<close>

text \<open>
  C1. For a discriminator \<open>d\<close> other than 0 and 1 the claim asks for
  \<^verbatim>\<open>TokenTransferHookAccountNotFound\<close> whenever \<open>d - 128\<close> is negative. The
  function compares only \<^verbatim>\<open>previousMetas.length <= accountIndex\<close>, which a negative
  index passes; \<^verbatim>\<open>previousMetas[accountIndex]\<close> is then \<^verbatim>\<open>undefined\<close> and reading its
  \<^verbatim>\<open>pubkey\<close> throws a \<^verbatim>\<open>TypeError\<close>. Evaluated for discriminator 2 and no resolved
  reference: the exception is a \<^verbatim>\<open>TypeError\<close>, not the library's error.
\<close>

theorem resolve_negative_index_TypeError:
  "outcome (resolveExtraAccountMeta (\<lambda>c p d. Inr [c]) (\<lambda>s p. Inr (p, 255))
              \<lparr>discriminator = 2, addressConfig = replicate 32 0, isSigner = False, isWritable = False\<rparr>
              [] [] (PublicKey 1))
     = Inl TypeError
   \<and> outcome (resolveExtraAccountMeta (\<lambda>c p d. Inr [c]) (\<lambda>s p. Inr (p, 255))
              \<lparr>discriminator = 2, addressConfig = replicate 32 0, isSigner = False, isWritable = False\<rparr>
              [] [] (PublicKey 1))
     \<noteq> Inl TokenTransferHookAccountNotFound"
  by (simp add: resolveExtraAccountMeta_def owningProgram_def at_index_def)

text \<open>
  C2. A descriptor with discriminator 0 and a 32-byte \<open>addressConfig\<close> resolves to
  the reference whose key is made of those 32 bytes (\<^verbatim>\<open>toBuffer()\<close> of the key
  gives them back), with the descriptor's two flags, and neither \<^verbatim>\<open>unpackSeeds\<close>
  nor \<^verbatim>\<open>findProgramAddressSync\<close> is called, whatever the two collaborators, the
  resolved list, the instruction data and the hook program are.
\<close>

theorem resolve_literal_address:
  assumes "discriminator extraMeta = 0" and "length (addressConfig extraMeta) = 32"
  shows "outcome (resolveExtraAccountMeta unpackSeeds findProgramAddressSync
                    extraMeta previousMetas instructionData transferHookProgramId)
           = Inr \<lparr>pubkey = PublicKey (word_of_int (be_val (addressConfig extraMeta))),
                   isSigner = ExtraAccountMeta.isSigner extraMeta,
                   isWritable = ExtraAccountMeta.isWritable extraMeta\<rparr>
         \<and> toBuffer (PublicKey (word_of_int (be_val (addressConfig extraMeta))))
             = addressConfig extraMeta
         \<and> calls (resolveExtraAccountMeta unpackSeeds findProgramAddressSync
                    extraMeta previousMetas instructionData transferHookProgramId) = []"
  using assms by (simp add: resolveExtraAccountMeta_def newPublicKey_32 andThen_def)

theorem resolve_literal_address_witness:
  "outcome (resolveExtraAccountMeta
              (\<lambda>c p d. Inl (External ''unpackSeeds'')) (\<lambda>s p. Inl (External ''findProgramAddressSync''))
              \<lparr>discriminator = 0, addressConfig = replicate 32 0, isSigner = False, isWritable = True\<rparr>
              [] [] (PublicKey 1))
     = Inr \<lparr>pubkey = PublicKey 0, isSigner = False, isWritable = True\<rparr>
   \<and> calls (resolveExtraAccountMeta
              (\<lambda>c p d. Inl (External ''unpackSeeds'')) (\<lambda>s p. Inl (External ''findProgramAddressSync''))
              \<lparr>discriminator = 0, addressConfig = replicate 32 0, isSigner = False, isWritable = True\<rparr>
              [] [] (PublicKey 1)) = []"
proof -
  let ?m = "\<lparr>discriminator = 0, addressConfig = replicate 32 (0::byte), isSigner = False, isWritable = True\<rparr>"
  have d: "discriminator ?m = 0" and l: "length (addressConfig ?m) = 32"
    by simp_all
  have v: "be_val (replicate 32 0) = 0"
    by code_simp
  show ?thesis
    using resolve_literal_address [OF d l,
        of "\<lambda>c p d. Inl (External ''unpackSeeds'')" "\<lambda>s p. Inl (External ''findProgramAddressSync'')"
           "[]" "[]" "PublicKey 1"]
    by (simp add: v)
qed

text \<open>
  C3. A descriptor with discriminator 1 is derived under the hook program,
  whatever the resolved list holds: the outcome is what \<^verbatim>\<open>findProgramAddressSync\<close>
  returns for the seeds of \<^verbatim>\<open>unpackSeeds(addressConfig, previousMetas,
  instructionData)\<close> and the owner \<^verbatim>\<open>transferHookProgramId\<close> (its first component
  as the key, the descriptor's flags), an exception of either collaborator is
  the exception of the call, and every derivation call made has the hook
  program as its owner.
\<close>

theorem resolve_self_derived:
  assumes "discriminator extraMeta = 1"
  shows "outcome (resolveExtraAccountMeta unpackSeeds findProgramAddressSync
                    extraMeta previousMetas instructionData transferHookProgramId)
           = andThen (unpackSeeds (addressConfig extraMeta) previousMetas instructionData) (\<lambda>seeds.
             andThen (findProgramAddressSync seeds transferHookProgramId) (\<lambda>r.
             Inr \<lparr>pubkey = fst r,
                  isSigner = ExtraAccountMeta.isSigner extraMeta,
                  isWritable = ExtraAccountMeta.isWritable extraMeta\<rparr>))
         \<and> (\<forall>seeds programId.
               FindProgramAddressSync seeds programId
                 \<in> set (calls (resolveExtraAccountMeta unpackSeeds findProgramAddressSync
                                 extraMeta previousMetas instructionData transferHookProgramId))
               \<longrightarrow> programId = transferHookProgramId
                    \<and> unpackSeeds (addressConfig extraMeta) previousMetas instructionData = Inr seeds)"
  using assms
  by (auto simp add: resolveExtraAccountMeta_def owningProgram_self andThen_def split: sum.splits)

theorem resolve_self_derived_witness:
  "outcome (resolveExtraAccountMeta (\<lambda>c p d. Inr [c, d]) (\<lambda>s p. Inr (p, 254))
              \<lparr>discriminator = 1, addressConfig = replicate 32 9, isSigner = True, isWritable = False\<rparr>
              [\<lparr>pubkey = PublicKey 7, isSigner = False, isWritable = False\<rparr>]
              [3, 4] (PublicKey 1))
     = Inr \<lparr>pubkey = PublicKey 1, isSigner = True, isWritable = False\<rparr>"
proof -
  have d: "discriminator \<lparr>discriminator = 1, addressConfig = replicate 32 (9::byte),
                          isSigner = True, isWritable = False\<rparr> = 1"
    by simp
  show ?thesis
    using resolve_self_derived [OF d, of "\<lambda>c p d. Inr [c, d]" "\<lambda>s p. Inr (p, 254)"
        "[\<lparr>pubkey = PublicKey 7, isSigner = False, isWritable = False\<rparr>]"
        "[3, 4]" "PublicKey 1"]
    by (simp add: andThen_def)
qed

text \<open>
  C4. A buffer of at least 4 bytes always decodes, and to exactly
  \<open>(length - 4) div 35\<close> descriptors, the \<open>i\<close>-th being the descriptor read at
  offset \<open>4 + 35 * i\<close>; the count field is the little-endian value of the first
  four bytes and has no part in the number of descriptors, and up to 34 bytes
  after the last whole entry are left unread. \<^verbatim>\<open>getExtraAccountMetas\<close> returns
  that list.
\<close>

theorem decode_list_greedy_length:
  assumes "4 \<le> length (data account)"
  shows "\<exists>xs. ExtraAccountMetaListLayout_decode (data account) 0
                 = Inr \<lparr>count = le_val (take 4 (data account)), extraAccounts = xs\<rparr>
             \<and> getExtraAccountMetas account = Inr xs
             \<and> length xs = (length (data account) - 4) div 35
             \<and> (\<forall>i < length xs.
                   ExtraAccountMetaLayout_decode (data account) (4 + 35 * i) = Inr (xs ! i))"
proof -
  let ?b = "data account"
  let ?n = "(length ?b - 4) div 35"
  let ?xs = "map (\<lambda>i. \<lparr>discriminator = uint (?b ! (4 + 35 * i)),
                     addressConfig = take 32 (drop (4 + 35 * i + 1) ?b),
                     isSigner = (?b ! (4 + 35 * i + 33) \<noteq> 0),
                     isWritable = (?b ! (4 + 35 * i + 34) \<noteq> 0)\<rparr>) [0..<?n]"
  have c: "u32_decode ?b 0 = Inr (le_val (take 4 ?b))"
    using assms by (simp add: u32_decode_def UInt_decode_def readUIntLE_def)
  have fit: "4 + 35 * ?n \<le> length ?b"
    using assms by simp
  have s: "Sequence_decode ExtraAccountMetaLayout_decode ExtraAccountMetaLayout_span
             (GreedyCount_decode ExtraAccountMetaLayout_span) ?b (0 + 4) = Inr ?xs"
    using Sequence_decode_loop_fields [OF fit] assms
    by (simp add: Sequence_decode_def ExtraAccountMetaLayout_span_def greedy_count)
  have dec: "ExtraAccountMetaListLayout_decode ?b 0
               = Inr \<lparr>count = le_val (take 4 ?b), extraAccounts = ?xs\<rparr>"
    by (simp only: ExtraAccountMetaListLayout_decode_def c s andThen_def sum.case)
  have each: "\<forall>i < length ?xs. ExtraAccountMetaLayout_decode ?b (4 + 35 * i) = Inr (?xs ! i)"
  proof (intro allI impI)
    fix i assume "i < length ?xs"
    then have i: "i < ?n" by simp
    then have "35 * i + 35 \<le> 35 * ?n" by simp
    with fit have "(4 + 35 * i) + 35 \<le> length ?b" by linarith
    from ExtraAccountMetaLayout_decode_fields [OF this] i
    show "ExtraAccountMetaLayout_decode ?b (4 + 35 * i) = Inr (?xs ! i)"
      by simp
  qed
  have "getExtraAccountMetas account = Inr ?xs"
    by (simp add: getExtraAccountMetas_def dec andThen_def)
  with dec each show ?thesis
    by (intro exI [of _ ?xs]) simp
qed

text \<open>
  A buffer of 45 bytes whose count field says 2: one descriptor is decoded and
  the 6 bytes after it are dropped.
\<close>

theorem decode_list_greedy_length_witness:
  "\<exists>xs. ExtraAccountMetaListLayout_decode (2 # 0 # 0 # 0 # replicate 41 0) 0
           = Inr \<lparr>count = 2, extraAccounts = xs\<rparr>
        \<and> getExtraAccountMetas
            \<lparr>executable = False, owner = PublicKey 0, lamports = 0,
             data = 2 # 0 # 0 # 0 # replicate 41 0\<rparr> = Inr xs
        \<and> length xs = 1"
proof -
  have h: "4 \<le> length (data \<lparr>executable = False, owner = PublicKey 0, lamports = 0,
                              data = 2 # 0 # 0 # 0 # replicate 41 0\<rparr>)"
    by simp
  show ?thesis
    using decode_list_greedy_length [OF h] by auto
qed

text \<open>
  C5. Round trip. A descriptor list whose count fits 32 bits and whose
  descriptors have a byte as discriminator and 32 bytes of configuration is
  encoded into any buffer that has room for it: encode returns \<open>4 + 35 * n\<close>
  for its \<open>n\<close> descriptors, keeps the buffer's length, and decoding the bytes it
  wrote gives the list back, the count field included (whether or not the
  count equals \<open>n\<close>).
\<close>

theorem encode_decode_list_roundtrip:
  fixes src :: ExtraAccountMetaList
  assumes "0 \<le> count src" and "count src < 2 ^ 32"
    and "\<forall>m\<in>set (extraAccounts src).
           0 \<le> discriminator m \<and> discriminator m \<le> 255 \<and> length (addressConfig m) = 32"
    and "4 + 35 * length (extraAccounts src) \<le> length b"
  shows "\<exists>b'. ExtraAccountMetaListLayout_encode src b 0
                 = Inr (b', 4 + 35 * length (extraAccounts src))
             \<and> length b' = length b
             \<and> ExtraAccountMetaListLayout_decode (take (4 + 35 * length (extraAccounts src)) b') 0
                 = Inr src"
proof -
  let ?ms = "extraAccounts src"
  let ?n = "length ?ms"
  let ?c = "le_bytes 4 (count src)"
  let ?body = "concat (map spec_descriptor_bytes ?ms)"
  let ?b1 = "?c @ drop 4 b"
  let ?b2 = "?c @ ?body @ drop (4 + 35 * ?n) b"
  have lenbody: "length ?body = 35 * ?n"
    using assms(3) by (simp add: length_concat_spec_descriptor_bytes)
  have e1: "u32_encode (count src) b 0 = Inr (?b1, 4)"
    using assms by (simp add: u32_encode_def UInt_encode_def writeUIntLE_def andThen_def)
  have "Sequence_encode ExtraAccountMetaLayout_encode ?ms ?b1 (0 + 4)
          = Inr (take (0 + 4 + 0) ?b1 @ ?body @ drop (0 + 4 + 0 + 35 * ?n) ?b1, 0 + 35 * ?n)"
    unfolding Sequence_encode_def
    using assms by (intro Sequence_encode_reduce_bytes) simp_all
  then have e2: "Sequence_encode ExtraAccountMetaLayout_encode ?ms ?b1 (0 + 4) = Inr (?b2, 35 * ?n)"
    by (simp add: add.commute)
  have enc: "ExtraAccountMetaListLayout_encode src b 0 = Inr (?b2, 4 + 35 * ?n)"
    by (simp only: ExtraAccountMetaListLayout_encode_def e1 e2 andThen_def sum.case fst_conv snd_conv)
       simp
  have len2: "length ?b2 = length b"
    using assms(4) lenbody by simp
  have tk: "take (4 + 35 * ?n) ?b2 = ?c @ ?body @ []"
    using lenbody by simp
  have d1: "u32_decode (?c @ ?body @ []) 0 = Inr (count src)"
    using assms(1,2) by (simp add: u32_decode_def UInt_decode_def readUIntLE_def le_val_le_bytes)
  have cnt: "nat (GreedyCount_decode 35 (?c @ ?body @ []) 4) = ?n"
    using lenbody by (simp add: greedy_count)
  have "Sequence_decode_loop ExtraAccountMetaLayout_decode 35 (length ?ms)
          (?c @ ?body @ []) (length ?c) = Inr ?ms"
    using assms(3) by (rule Sequence_decode_loop_encoded)
  then have d2: "Sequence_decode ExtraAccountMetaLayout_decode ExtraAccountMetaLayout_span
            (GreedyCount_decode ExtraAccountMetaLayout_span) (?c @ ?body @ []) (0 + 4) = Inr ?ms"
    using cnt by (simp add: Sequence_decode_def ExtraAccountMetaLayout_span_def)
  have "ExtraAccountMetaListLayout_decode (?c @ ?body @ []) 0
          = Inr \<lparr>count = count src, extraAccounts = ?ms\<rparr>"
    by (simp only: ExtraAccountMetaListLayout_decode_def d1 d2 andThen_def sum.case)
  then have dec: "ExtraAccountMetaListLayout_decode (take (4 + 35 * ?n) ?b2) 0 = Inr src"
    by (simp only: tk) simp
  from enc len2 dec show ?thesis
    by blast
qed

text \<open>A list with count 5 and one descriptor, written into a buffer of 39 bytes.\<close>

theorem encode_decode_list_roundtrip_witness:
  "\<exists>b'. ExtraAccountMetaListLayout_encode
            \<lparr>count = 5,
             extraAccounts = [\<lparr>discriminator = 129, addressConfig = replicate 32 7,
                               isSigner = False, isWritable = True\<rparr>]\<rparr>
            (replicate 39 0) 0 = Inr (b', 39)
        \<and> ExtraAccountMetaListLayout_decode (take 39 b') 0
            = Inr \<lparr>count = 5,
                   extraAccounts = [\<lparr>discriminator = 129, addressConfig = replicate 32 7,
                                     isSigner = False, isWritable = True\<rparr>]\<rparr>"
  using encode_decode_list_roundtrip
    [of "\<lparr>count = 5,
          extraAccounts = [\<lparr>discriminator = 129, addressConfig = replicate 32 7,
                            isSigner = False, isWritable = True\<rparr>]\<rparr>"
        "replicate 39 0"]
  by auto

text \<open>
  C6. One descriptor is 35 bytes: decoding at an offset reads the discriminator
  from the byte at the offset, \<open>addressConfig\<close> from the 32 bytes after it,
  \<open>isSigner\<close> from the byte at offset + 33 and \<open>isWritable\<close> from the byte at
  offset + 34; encoding a descriptor (discriminator a byte, 32 bytes of
  configuration) writes exactly these 35 bytes in this order, leaves the rest
  of the buffer as it was and returns 35.
\<close>

theorem ExtraAccountMetaLayout_positions:
  fixes m :: ExtraAccountMeta
  assumes "offset + 35 \<le> length b"
    and "0 \<le> discriminator m" "discriminator m \<le> 255" "length (addressConfig m) = 32"
  shows "ExtraAccountMetaLayout_span = 35
       \<and> ExtraAccountMetaLayout_decode b offset =
           Inr \<lparr>discriminator = uint (b ! offset),
                addressConfig = take 32 (drop (offset + 1) b),
                isSigner = (b ! (offset + 33) \<noteq> 0),
                isWritable = (b ! (offset + 34) \<noteq> 0)\<rparr>
       \<and> ExtraAccountMetaLayout_encode m b offset =
           Inr (take offset b
                  @ [word_of_int (discriminator m)] @ addressConfig m
                  @ [if ExtraAccountMeta.isSigner m then 1 else 0]
                  @ [if ExtraAccountMeta.isWritable m then 1 else 0]
                  @ drop (offset + 35) b, 35)"
  using ExtraAccountMetaLayout_decode_fields [OF assms(1)]
        ExtraAccountMetaLayout_encode_bytes [OF assms(2,3,4,1)]
  by (simp add: ExtraAccountMetaLayout_span_def spec_descriptor_bytes_def)

theorem ExtraAccountMetaLayout_positions_witness:
  "ExtraAccountMetaLayout_decode (5 # replicate 32 8 @ [1, 0, 77]) 0
     = Inr \<lparr>discriminator = 5, addressConfig = replicate 32 8, isSigner = True, isWritable = False\<rparr>
   \<and> ExtraAccountMetaLayout_encode
       \<lparr>discriminator = 129, addressConfig = replicate 32 7, isSigner = False, isWritable = True\<rparr>
       (5 # replicate 32 8 @ [1, 0, 77]) 0
     = Inr (129 # replicate 32 7 @ [0, 1, 77], 35)"
proof -
  have h: "0 + 35 \<le> length (5 # replicate 32 (8::byte) @ [1, 0, 77])"
    by simp
  let ?m = "\<lparr>discriminator = 129, addressConfig = replicate 32 (7::byte),
             isSigner = False, isWritable = True\<rparr>"
  have w: "0 \<le> discriminator ?m" "discriminator ?m \<le> 255" "length (addressConfig ?m) = 32"
    by simp_all
  show ?thesis
    using ExtraAccountMetaLayout_positions [OF h w]
    by (simp add: nth_append)
qed

text \<open>
  C7. \<^verbatim>\<open>getExtraAccountMetaAccount(programId, mint)\<close> is the address component of
  \<^verbatim>\<open>findProgramAddressSync\<close> applied to the two seeds
  \<^verbatim>\<open>[Buffer.from('extra-account-metas'), mint.toBuffer()]\<close> (the first being the 19
  ASCII bytes of the tag, the second 32 bytes) and the owner \<^verbatim>\<open>programId\<close>; it
  throws exactly when the derivation throws, and then the same exception.
\<close>

theorem getExtraAccountMetaAccount_derivation:
  "getExtraAccountMetaAccount findProgramAddressSync programId mint =
     (case findProgramAddressSync
             [[101, 120, 116, 114, 97, 45, 97, 99, 99, 111, 117, 110, 116, 45, 109, 101, 116, 97, 115],
              toBuffer mint] programId of
        Inl e \<Rightarrow> Inl e
      | Inr (address, bump) \<Rightarrow> Inr address)
   \<and> length (toBuffer mint) = 32"
  by (simp add: getExtraAccountMetaAccount_def Buffer_from_def andThen_def
                toBuffer_def be_bytes_def PUBLIC_KEY_LENGTH_def
           split: sum.splits prod.splits)

text \<open>
  C8. \<^verbatim>\<open>resolveExtraAccountMeta\<close> leaves the array of already-resolved references as
  it found it: for every descriptor, list, instruction data and hook program,
  when the call of \<^verbatim>\<open>unpackSeeds\<close> (the one callee that is handed the array)
  leaves the array as it found it, the contents of \<^verbatim>\<open>previousMetas\<close> when
  \<^verbatim>\<open>resolveExtraAccountMeta\<close> ends, by return or by exception, are its contents when
  the call began: same length, same entries.
\<close>

theorem resolve_keeps_previousMetas:
  assumes "snd (unpackSeeds (addressConfig extraMeta) previousMetas instructionData) = previousMetas"
  shows "snd (resolveExtraAccountMeta_by_reference unpackSeeds findProgramAddressSync
                extraMeta previousMetas instructionData transferHookProgramId)
           = previousMetas"
proof (cases "discriminator extraMeta = 0")
  case True
  then show ?thesis
    by (simp add: resolveExtraAccountMeta_by_reference_array)
next
  case False
  show ?thesis
  proof (cases "owningProgram extraMeta previousMetas transferHookProgramId")
    case (Inl e)
    with False show ?thesis
      by (simp add: resolveExtraAccountMeta_by_reference_array)
  next
    case (Inr programId)
    with False assms show ?thesis
      by (simp add: resolveExtraAccountMeta_by_reference_array)
  qed
qed

text \<open>
  A delegated descriptor resolved against two references with a callee that
  reads the array: the call returns, the callee was handed the array, and the
  two references are still there.
\<close>

theorem resolve_keeps_previousMetas_witness:
  "resolveExtraAccountMeta_by_reference (\<lambda>c p d. (Inr [c, toBuffer (pubkey (p ! 0))], p))
       (\<lambda>s p. Inr (p, 254))
       \<lparr>discriminator = 129, addressConfig = replicate 32 9, isSigner = True, isWritable = False\<rparr>
       [\<lparr>pubkey = PublicKey 6, isSigner = False, isWritable = False\<rparr>,
        \<lparr>pubkey = PublicKey 7, isSigner = False, isWritable = False\<rparr>]
       [3, 4] (PublicKey 1)
   = (\<lparr>outcome = Inr \<lparr>pubkey = PublicKey 7, isSigner = True, isWritable = False\<rparr>,
       calls = [UnpackSeeds (replicate 32 9)
                  [\<lparr>pubkey = PublicKey 6, isSigner = False, isWritable = False\<rparr>,
                   \<lparr>pubkey = PublicKey 7, isSigner = False, isWritable = False\<rparr>]
                  [3, 4],
                FindProgramAddressSync [replicate 32 9, toBuffer (PublicKey 6)] (PublicKey 7)]\<rparr>,
      [\<lparr>pubkey = PublicKey 6, isSigner = False, isWritable = False\<rparr>,
       \<lparr>pubkey = PublicKey 7, isSigner = False, isWritable = False\<rparr>])"
proof -
  let ?us = "\<lambda>(c::Buffer) (p::AccountMeta list) (d::Buffer). (Inr [c, toBuffer (pubkey (p ! 0))] :: error + Buffer list, p)"
  let ?m = "\<lparr>discriminator = 129, addressConfig = replicate 32 (9::byte), isSigner = True, isWritable = False\<rparr>"
  let ?prev = "[\<lparr>pubkey = PublicKey 6, isSigner = False, isWritable = False\<rparr>,
                \<lparr>pubkey = PublicKey 7, isSigner = False, isWritable = False\<rparr>]"
  have h: "snd (?us (addressConfig ?m) ?prev [3, 4]) = ?prev"
    by simp
  have a: "snd (resolveExtraAccountMeta_by_reference ?us (\<lambda>s p. Inr (p, 254)) ?m ?prev [3, 4] (PublicKey 1))
             = ?prev"
    using h
      resolve_keeps_previousMetas
        [where unpackSeeds = ?us and extraMeta = ?m and previousMetas = ?prev
           and instructionData = "[3, 4]" and findProgramAddressSync = "\<lambda>s p. Inr (p, 254)"
           and transferHookProgramId = "PublicKey 1"]
    by simp
  have r: "fst (resolveExtraAccountMeta_by_reference ?us (\<lambda>s p. Inr (p, 254)) ?m ?prev [3, 4] (PublicKey 1))
             = \<lparr>outcome = Inr \<lparr>pubkey = PublicKey 7, isSigner = True, isWritable = False\<rparr>,
                calls = [UnpackSeeds (replicate 32 9) ?prev [3, 4],
                         FindProgramAddressSync [replicate 32 9, toBuffer (PublicKey 6)] (PublicKey 7)]\<rparr>"
    by (simp add: resolveExtraAccountMeta_by_reference_def owningProgram_def at_index_def andThen_def)
  from r a show ?thesis
    by (simp add: prod_eq_iff)
qed

text \<open>
  C9. For every discriminator: when \<^verbatim>\<open>resolveExtraAccountMeta\<close> returns a reference,
  its \<open>isSigner\<close> and \<open>isWritable\<close> are those of the descriptor.
\<close>

theorem resolve_copies_flags:
  assumes "outcome (resolveExtraAccountMeta unpackSeeds findProgramAddressSync
                      extraMeta previousMetas instructionData transferHookProgramId) = Inr r"
  shows "AccountMeta.isSigner r = ExtraAccountMeta.isSigner extraMeta
       \<and> AccountMeta.isWritable r = ExtraAccountMeta.isWritable extraMeta"
  using assms
  by (auto simp add: resolveExtraAccountMeta_def andThen_def split: sum.splits if_splits)

text \<open>
  A delegated descriptor with \<open>isSigner\<close> set and \<open>isWritable\<close> clear, resolved
  against one reference: the call returns, and the reference returned has
  \<open>isSigner\<close> set and \<open>isWritable\<close> clear.
\<close>

theorem resolve_copies_flags_witness:
  "outcome (resolveExtraAccountMeta (\<lambda>c p d. Inr [c, d]) (\<lambda>s p. Inr (p, 254))
              \<lparr>discriminator = 128, addressConfig = replicate 32 9, isSigner = True, isWritable = False\<rparr>
              [\<lparr>pubkey = PublicKey 7, isSigner = False, isWritable = False\<rparr>]
              [3, 4] (PublicKey 1))
     = Inr \<lparr>pubkey = PublicKey 7, isSigner = True, isWritable = False\<rparr>
   \<and> AccountMeta.isSigner \<lparr>pubkey = PublicKey 7, isSigner = True, isWritable = False\<rparr>
     = ExtraAccountMeta.isSigner
         \<lparr>discriminator = 128, addressConfig = replicate 32 9, isSigner = True, isWritable = False\<rparr>
   \<and> AccountMeta.isWritable \<lparr>pubkey = PublicKey 7, isSigner = True, isWritable = False\<rparr>
     = ExtraAccountMeta.isWritable
         \<lparr>discriminator = 128, addressConfig = replicate 32 9, isSigner = True, isWritable = False\<rparr>"
proof -
  have h: "outcome (resolveExtraAccountMeta (\<lambda>c p d. Inr [c, d]) (\<lambda>s p. Inr (p, 254))
              \<lparr>discriminator = 128, addressConfig = replicate 32 9, isSigner = True, isWritable = False\<rparr>
              [\<lparr>pubkey = PublicKey 7, isSigner = False, isWritable = False\<rparr>]
              [3, 4] (PublicKey 1))
     = Inr \<lparr>pubkey = PublicKey 7, isSigner = True, isWritable = False\<rparr>"
    by (simp add: resolveExtraAccountMeta_def owningProgram_def at_index_def andThen_def)
  show ?thesis
    by (rule conjI [OF h resolve_copies_flags [OF h]])
qed

text \<open>
  C10. A descriptor whose discriminator is a byte (at most 255) and at least 128
  takes its owning program from index \<open>discriminator - 128\<close>, which is below
  128: when the call returns a reference, the one derivation call made has the
  key of \<^verbatim>\<open>previousMetas[i]\<close> as owner for an \<open>i\<close> below 128 and below the length,
  and the owning program is the same when only the first 128 entries of the
  list are kept.
\<close>

theorem delegated_owner_among_first_128:
  assumes "128 \<le> discriminator extraMeta" and "discriminator extraMeta \<le> 255"
    and "outcome (resolveExtraAccountMeta unpackSeeds findProgramAddressSync
                    extraMeta previousMetas instructionData transferHookProgramId) = Inr r"
  shows "(\<exists>i seeds bump.
            i < 128 \<and> i < length previousMetas \<and> int i = discriminator extraMeta - 128
          \<and> unpackSeeds (addressConfig extraMeta) previousMetas instructionData = Inr seeds
          \<and> findProgramAddressSync seeds (pubkey (previousMetas ! i)) = Inr (pubkey r, bump)
          \<and> calls (resolveExtraAccountMeta unpackSeeds findProgramAddressSync
                      extraMeta previousMetas instructionData transferHookProgramId)
              = [UnpackSeeds (addressConfig extraMeta) previousMetas instructionData,
                 FindProgramAddressSync seeds (pubkey (previousMetas ! i))])
       \<and> owningProgram extraMeta previousMetas transferHookProgramId
           = owningProgram extraMeta (take 128 previousMetas) transferHookProgramId"
proof
  let ?d = "discriminator extraMeta"
  have ne: "?d \<noteq> 0" "?d \<noteq> 1"
    using assms(1) by auto
  have own: "owningProgram extraMeta previousMetas transferHookProgramId
               = Inr (pubkey (previousMetas ! nat (?d - 128)))
             \<and> nat (?d - 128) < length previousMetas"
    using assms ne
    by (auto simp add: resolveExtraAccountMeta_def owningProgram_delegated split: if_splits)
  have idx: "nat (?d - 128) < 128" "int (nat (?d - 128)) = ?d - 128"
    using assms(1,2) by auto
  obtain seeds where seeds:
    "unpackSeeds (addressConfig extraMeta) previousMetas instructionData = Inr seeds"
    using assms(3) ne own
    by (cases "unpackSeeds (addressConfig extraMeta) previousMetas instructionData")
       (auto simp add: resolveExtraAccountMeta_def)
  obtain bump where bump:
    "findProgramAddressSync seeds (pubkey (previousMetas ! nat (?d - 128))) = Inr (pubkey r, bump)"
    using assms(3) ne own seeds
    by (cases "findProgramAddressSync seeds (pubkey (previousMetas ! nat (?d - 128)))")
       (auto simp add: resolveExtraAccountMeta_def andThen_def)
  have "calls (resolveExtraAccountMeta unpackSeeds findProgramAddressSync
                 extraMeta previousMetas instructionData transferHookProgramId)
          = [UnpackSeeds (addressConfig extraMeta) previousMetas instructionData,
             FindProgramAddressSync seeds (pubkey (previousMetas ! nat (?d - 128)))]"
    using ne own seeds by (simp add: resolveExtraAccountMeta_def)
  with own idx seeds bump
  show "\<exists>i seeds bump.
            i < 128 \<and> i < length previousMetas \<and> int i = ?d - 128
          \<and> unpackSeeds (addressConfig extraMeta) previousMetas instructionData = Inr seeds
          \<and> findProgramAddressSync seeds (pubkey (previousMetas ! i)) = Inr (pubkey r, bump)
          \<and> calls (resolveExtraAccountMeta unpackSeeds findProgramAddressSync
                      extraMeta previousMetas instructionData transferHookProgramId)
              = [UnpackSeeds (addressConfig extraMeta) previousMetas instructionData,
                 FindProgramAddressSync seeds (pubkey (previousMetas ! i))]"
    by blast
next
  have "discriminator extraMeta \<noteq> 1"
    using assms(1) by auto
  then show "owningProgram extraMeta previousMetas transferHookProgramId
           = owningProgram extraMeta (take 128 previousMetas) transferHookProgramId"
    using assms(1,2) by (auto simp add: owningProgram_delegated)
qed

theorem delegated_owner_among_first_128_witness:
  "calls (resolveExtraAccountMeta (\<lambda>c p d. Inr [c, d]) (\<lambda>s p. Inr (p, 254))
          \<lparr>discriminator = 129, addressConfig = replicate 32 9, isSigner = True, isWritable = False\<rparr>
          [\<lparr>pubkey = PublicKey 6, isSigner = False, isWritable = False\<rparr>,
           \<lparr>pubkey = PublicKey 7, isSigner = False, isWritable = False\<rparr>]
          [3, 4] (PublicKey 1))
     = [UnpackSeeds (replicate 32 9)
          [\<lparr>pubkey = PublicKey 6, isSigner = False, isWritable = False\<rparr>,
           \<lparr>pubkey = PublicKey 7, isSigner = False, isWritable = False\<rparr>]
          [3, 4],
        FindProgramAddressSync [replicate 32 9, [3, 4]] (PublicKey 7)]"
proof -
  let ?m = "\<lparr>discriminator = 129, addressConfig = replicate 32 (9::byte), isSigner = True, isWritable = False\<rparr>"
  let ?prev = "[\<lparr>pubkey = PublicKey 6, isSigner = False, isWritable = False\<rparr>,
                \<lparr>pubkey = PublicKey 7, isSigner = False, isWritable = False\<rparr>]"
  have h1: "128 \<le> discriminator ?m" and h2: "discriminator ?m \<le> 255"
    by simp_all
  have h3: "outcome (resolveExtraAccountMeta (\<lambda>c p d. Inr [c, d]) (\<lambda>s p. Inr (p, 254))
              ?m ?prev [3, 4] (PublicKey 1))
     = Inr \<lparr>pubkey = PublicKey 7, isSigner = True, isWritable = False\<rparr>"
    by (simp add: resolveExtraAccountMeta_def owningProgram_def at_index_def andThen_def)
  show ?thesis
    using delegated_owner_among_first_128 [OF h1 h2 h3]
    by auto
qed

end
